theory Spec2Isabelle
  imports Main
begin

section \<open>Numbers that can be a watermark\<close>

text \<open>
  Pull-request and issue numbers come from the data source as integers. The watermark
  fields \<open>lastPRNumber\<close> and \<open>lastIssueNumber\<close> are JavaScript numbers computed with
  \<open>Math.max\<close>, which returns \<open>-Infinity\<close> when it is given no argument. The type
  below has exactly the values such a computation over integers can produce.
\<close>

datatype jsnum = NegInfinity | Num int

fun js_max :: "jsnum \<Rightarrow> jsnum \<Rightarrow> jsnum" where
  "js_max NegInfinity y = y"
| "js_max (Num a) NegInfinity = Num a"
| "js_max (Num a) (Num b) = Num (max a b)"

text \<open>\<open>Math.max(...xs)\<close>: the largest argument, \<open>-Infinity\<close> for no argument.\<close>

fun Math_max :: "jsnum list \<Rightarrow> jsnum" where
  "Math_max [] = NegInfinity"
| "Math_max (x # xs) = js_max x (Math_max xs)"

text \<open>\<open>a > b\<close> for an integer \<open>a\<close> and a watermark \<open>b\<close>.\<close>

fun js_gt :: "int \<Rightarrow> jsnum \<Rightarrow> bool" where
  "js_gt a NegInfinity = True"
| "js_gt a (Num b) = (b < a)"

text \<open>
  \<open>x || 0\<close> for an optional number: \<open>undefined\<close> and \<open>0\<close> are falsy and give \<open>0\<close>,
  every other number (also \<open>-Infinity\<close>) is truthy and is kept.
\<close>

fun or_zero :: "jsnum option \<Rightarrow> jsnum" where
  "or_zero None = Num 0"
| "or_zero (Some NegInfinity) = NegInfinity"
| "or_zero (Some (Num n)) = (if n = 0 then Num 0 else Num n)"

section \<open>Data model\<close>

text \<open>
  Instants are milliseconds since the epoch (\<open>Date.getTime()\<close>), as integers. The nodes
  are the fields the GraphQL queries of \<open>performFullSync\<close> and
  \<open>performIncrementalSync\<close> select; a login is absent when \<open>author\<close> (or
  \<open>author.user\<close>) is null.
\<close>

record comment_node =
  comment_id :: string
  comment_body :: string
  comment_createdAt :: int
  comment_login :: "string option"

record commit_node =
  commit_oid :: string
  commit_login :: "string option"
  commit_committedDate :: int
  commit_message :: string

record pr_node =
  pr_number :: int
  pr_title :: string
  pr_state :: string
  pr_createdAt :: int
  pr_closedAt :: "int option"
  pr_mergedAt :: "int option"
  pr_login :: "string option"
  pr_comments :: "comment_node list option"

record issue_node =
  issue_number :: int
  issue_title :: string
  issue_state :: string
  issue_createdAt :: int
  issue_closedAt :: "int option"
  issue_login :: "string option"
  issue_comments :: "comment_node list option"

text \<open>
  The \<open>repository\<close> object of a response. \<open>historyNodes\<close> is
  \<open>defaultBranchRef?.target?.history?.nodes\<close>, \<open>pullRequestNodes\<close> is
  \<open>pullRequests?.nodes\<close> and \<open>issueNodes\<close> is \<open>issues?.nodes\<close>: \<open>None\<close> when a
  link of the optional chain is missing.
\<close>

record repository =
  historyNodes :: "commit_node list option"
  pullRequestNodes :: "pr_node list option"
  issueNodes :: "issue_node list option"

record totals =
  commits :: int
  pullRequests :: int
  issues :: int
  prComments :: int
  issueComments :: int

text \<open>
  Objects as object spread sees them. An object literal (\<open>Plain\<close>) has its fields as own
  enumerable properties, and \<open>{...x}\<close> copies them. A document that mongoose hydrated
  (\<open>Hydrated\<close>: what \<open>findOne(...).exec()\<close> returns without \<open>.lean()\<close>, and every nested
  subdocument of it) gives its fields through accessors of its prototype: reading a field
  returns the stored value, but its own enumerable properties are the internals of the
  document, so \<open>{...x}\<close> copies none of the fields.
\<close>

datatype 'a js_object = Plain 'a | Hydrated 'a

text \<open>Reading the fields of an object, of either kind.\<close>

fun doc_fields :: "'a js_object \<Rightarrow> 'a" where
  "doc_fields (Plain x) = x"
| "doc_fields (Hydrated x) = x"

text \<open>A nested object \<open>x.f\<close>: a subdocument when \<open>x\<close> is a hydrated document.\<close>

fun nested :: "('a \<Rightarrow> 'b) \<Rightarrow> 'a js_object \<Rightarrow> 'b js_object" where
  "nested f (Plain x) = Plain (f x)"
| "nested f (Hydrated x) = Hydrated (f x)"

text \<open>The property \<open>f\<close> of \<open>{...x}\<close>: \<open>None\<close> is \<open>undefined\<close>.\<close>

fun spread_number :: "('a \<Rightarrow> int) \<Rightarrow> 'a js_object \<Rightarrow> int option" where
  "spread_number f (Plain x) = Some (f x)"
| "spread_number f (Hydrated x) = None"

text \<open>
  The object a call returns: the five counters as the spread left them (absent counters
  read as \<open>undefined\<close>), \<open>isIncremental\<close> and \<open>itemsFetched\<close>.
\<close>

record outcome =
  out_commits :: "int option"
  out_pullRequests :: "int option"
  out_issues :: "int option"
  out_prComments :: "int option"
  out_issueComments :: "int option"
  isIncremental :: bool
  itemsFetched :: int

text \<open>The document of the \<open>SyncMetadata\<close> schema, keyed by \<open>(username, repo)\<close>.\<close>

record sync_metadata =
  sm_username :: string
  sm_repo :: string
  lastSyncDate :: int
  lastCommitSha :: "string option"
  lastPRNumber :: "jsnum option"
  lastIssueNumber :: "jsnum option"
  totalItems :: totals
  fetchedAt :: int

text \<open>The argument of \<open>SyncMetadataService.upsert\<close> as both callers build it.\<close>

record sync_data =
  sd_username :: string
  sd_repo :: string
  sd_lastSyncDate :: int
  sd_lastCommitSha :: "string option"
  sd_lastPRNumber :: jsnum
  sd_lastIssueNumber :: jsnum
  sd_totalItems :: totals

text \<open>The documents handed to the three \<open>bulkUpsert\<close> sinks.\<close>

record commit_doc =
  cd_repo :: string
  cd_repoOwner :: string
  cd_sha :: string
  cd_author :: string
  cd_message :: string
  cd_committedDate :: int
  cd_rawData :: commit_node
  cd_fetchedAt :: int

record pr_doc =
  pd_repo :: string
  pd_repoOwner :: string
  pd_prNumber :: int
  pd_title :: string
  pd_state :: string
  pd_author :: string
  pd_createdAt :: int
  pd_closedAt :: "int option"
  pd_mergedAt :: "int option"
  pd_rawData :: pr_node
  pd_fetchedAt :: int

record issue_doc =
  id_repo :: string
  id_repoOwner :: string
  id_issueNumber :: int
  id_title :: string
  id_state :: string
  id_author :: string
  id_createdAt :: int
  id_closedAt :: "int option"
  id_rawData :: issue_node
  id_fetchedAt :: int

text \<open>
  One GraphQL request: the variables and the \<open>first:\<close> limits that the query text has.
  The incremental query also sends the two stored numbers.
\<close>

record query =
  q_token :: string
  q_owner :: string
  q_name :: string
  q_since :: int
  q_commitLimit :: int
  q_prLimit :: int
  q_issueLimit :: int
  q_lastPRNumber :: "jsnum option"
  q_lastIssueNumber :: "jsnum option"

text \<open>
  The body of a response: \<open>errors\<close> (each error with an optional \<open>message\<close>) and
  \<open>data\<close>, which is null (\<open>None\<close>) or holds \<open>repository\<close>, itself null when the
  repository does not resolve.
\<close>

record graphql_body =
  errors :: "string option list option"
  data :: "repository option option"

datatype http_response = HttpFailure string | HttpOk graphql_body

datatype error = Error string | TypeError string | HttpError string

record repo_ref =
  owner :: string
  name :: string

text \<open>
  The state the service reads and writes: the sync-metadata collection, the batches each
  sink was given (in order), and the requests posted to the data source. The stores are
  collaborators whose code is outside the service: a \<open>bulkUpsert\<close> is recorded as the
  batch it receives, and the writes to the stores are taken to succeed.
\<close>

record world =
  syncMetadata :: "string \<times> string \<Rightarrow> sync_metadata option"
  commitsSink :: "commit_doc list list"
  pullRequestsSink :: "pr_doc list list"
  issuesSink :: "issue_doc list list"
  requests :: "query list"

text \<open>
  What one call reads from outside: the clock at the freshness check (\<open>Date.now()\<close>), the
  clock when it persists (\<open>new Date()\<close>), the data source as a function of the request, and
  the values of the \<open>AppConfigService\<close> getters.
\<close>

record env =
  now :: int
  writeTime :: int
  github :: "query \<Rightarrow> http_response"
  incrementalSyncIntervalHours :: int
  analysisStartDate :: int
  maxCommitsPerRepo :: int
  maxPRsPerRepo :: int
  maxIssuesPerRepo :: int

section \<open>SyncMetadataService\<close>

text \<open>
  \<open>findOne({ username, repo }).exec()\<close>: null, or the hydrated document of the stored
  record.
\<close>

definition findByUsernameAndRepo ::
  "string \<Rightarrow> string \<Rightarrow> world \<Rightarrow> sync_metadata js_object option" where
  "findByUsernameAndRepo username repo w = map_option Hydrated (syncMetadata w (username, repo))"

text \<open>
  \<open>findOneAndUpdate\<close> with \<open>$set\<close> and \<open>upsert: true\<close>: the given fields replace the stored
  ones; a field whose value is \<open>undefined\<close> (only \<open>lastCommitSha\<close> can be) is left as it
  was.
\<close>

definition upsert :: "sync_data \<Rightarrow> env \<Rightarrow> world \<Rightarrow> world" where
  "upsert syncData e w =
     (let key = (sd_username syncData, sd_repo syncData);
          oldSha = (case syncMetadata w key of None \<Rightarrow> None | Some d \<Rightarrow> lastCommitSha d);
          doc = \<lparr> sm_username = sd_username syncData,
                  sm_repo = sd_repo syncData,
                  lastSyncDate = sd_lastSyncDate syncData,
                  lastCommitSha = (case sd_lastCommitSha syncData of None \<Rightarrow> oldSha | Some s \<Rightarrow> Some s),
                  lastPRNumber = Some (sd_lastPRNumber syncData),
                  lastIssueNumber = Some (sd_lastIssueNumber syncData),
                  totalItems = sd_totalItems syncData,
                  fetchedAt = writeTime e \<rparr>
      in w\<lparr> syncMetadata := (syncMetadata w)(key := Some doc) \<rparr>)"

section \<open>IncrementalSyncService\<close>

definition firstErrorMessage :: "string option list \<Rightarrow> string" where
  "firstErrorMessage errs =
     (case errs of
        [] \<Rightarrow> ''Unknown error''
      | None # _ \<Rightarrow> ''Unknown error''
      | Some m # _ \<Rightarrow> (if m = [] then ''Unknown error'' else m))"

definition graphqlRequest :: "query \<Rightarrow> env \<Rightarrow> world \<Rightarrow> (error + repository option option) \<times> world" where
  "graphqlRequest q e w =
     (let w' = w\<lparr> requests := requests w @ [q] \<rparr> in
      case github e q of
        HttpFailure m \<Rightarrow> (Inl (HttpError m), w')
      | HttpOk body \<Rightarrow>
          (case errors body of
             Some errs \<Rightarrow> (Inl (Error (''GitHub GraphQL error: '' @ firstErrorMessage errs)), w')
           | None \<Rightarrow> (Inr (data body), w')))"

record filtered_data =
  fd_commits :: "commit_node list"
  fd_pullRequests :: "pr_node list"
  fd_issues :: "issue_node list"

definition repoOwnerOf :: "string \<Rightarrow> string" where
  "repoOwnerOf repoFullName = takeWhile (\<lambda>c. c \<noteq> CHR ''/'') repoFullName"

definition cacheDataToMongoDB :: "string \<Rightarrow> string \<Rightarrow> filtered_data \<Rightarrow> env \<Rightarrow> world \<Rightarrow> world" where
  "cacheDataToMongoDB username repoFullName d e w =
     (let w1 = (if length (fd_commits d) > 0
                then w\<lparr> commitsSink := commitsSink w @
                       [map (\<lambda>commit. \<lparr> cd_repo = repoFullName,
                                        cd_repoOwner = repoOwnerOf repoFullName,
                                        cd_sha = commit_oid commit,
                                        cd_author = username,
                                        cd_message = commit_message commit,
                                        cd_committedDate = commit_committedDate commit,
                                        cd_rawData = commit,
                                        cd_fetchedAt = writeTime e \<rparr>) (fd_commits d)] \<rparr>
                else w);
          w2 = (if length (fd_pullRequests d) > 0
                then w1\<lparr> pullRequestsSink := pullRequestsSink w1 @
                       [map (\<lambda>pr. \<lparr> pd_repo = repoFullName,
                                    pd_repoOwner = repoOwnerOf repoFullName,
                                    pd_prNumber = pr_number pr,
                                    pd_title = pr_title pr,
                                    pd_state = pr_state pr,
                                    pd_author = username,
                                    pd_createdAt = pr_createdAt pr,
                                    pd_closedAt = pr_closedAt pr,
                                    pd_mergedAt = pr_mergedAt pr,
                                    pd_rawData = pr,
                                    pd_fetchedAt = writeTime e \<rparr>) (fd_pullRequests d)] \<rparr>
                else w1);
          w3 = (if length (fd_issues d) > 0
                then w2\<lparr> issuesSink := issuesSink w2 @
                       [map (\<lambda>issue. \<lparr> id_repo = repoFullName,
                                       id_repoOwner = repoOwnerOf repoFullName,
                                       id_issueNumber = issue_number issue,
                                       id_title = issue_title issue,
                                       id_state = issue_state issue,
                                       id_author = username,
                                       id_createdAt = issue_createdAt issue,
                                       id_closedAt = issue_closedAt issue,
                                       id_rawData = issue,
                                       id_fetchedAt = writeTime e \<rparr>) (fd_issues d)] \<rparr>
                else w2)
      in w3)"

text \<open>\<open>x?.nodes || []\<close>\<close>

definition or_empty :: "'a list option \<Rightarrow> 'a list" where
  "or_empty xs = (case xs of None \<Rightarrow> [] | Some ns \<Rightarrow> ns)"

definition processAndCacheFullData ::
  "string \<Rightarrow> string \<Rightarrow> repository \<Rightarrow> int \<Rightarrow> env \<Rightarrow> world \<Rightarrow> totals \<times> world" where
  "processAndCacheFullData username repoFullName repository sixMonthsAgo e w =
     (let commitsL = or_empty (historyNodes repository);
          userCommits = filter (\<lambda>commit.
              commit_login commit = Some username \<and>
              commit_committedDate commit \<ge> sixMonthsAgo) commitsL;
          pullRequestsL = or_empty (pullRequestNodes repository);
          userPRs = filter (\<lambda>pr.
              pr_login pr = Some username \<and>
              pr_createdAt pr \<ge> sixMonthsAgo) pullRequestsL;
          issuesL = or_empty (issueNodes repository);
          userIssues = filter (\<lambda>issue.
              issue_login issue = Some username \<and>
              issue_createdAt issue \<ge> sixMonthsAgo) issuesL;
          userPRComments = foldl (\<lambda>acc pr. acc +
              int (length (filter (\<lambda>comment.
                  comment_login comment = Some username \<and>
                  comment_createdAt comment \<ge> sixMonthsAgo) (or_empty (pr_comments pr)))))
              0 pullRequestsL;
          userIssueComments = foldl (\<lambda>acc issue. acc +
              int (length (filter (\<lambda>comment.
                  comment_login comment = Some username \<and>
                  comment_createdAt comment \<ge> sixMonthsAgo) (or_empty (issue_comments issue)))))
              0 issuesL;
          w' = cacheDataToMongoDB username repoFullName
                 \<lparr> fd_commits = userCommits, fd_pullRequests = userPRs, fd_issues = userIssues \<rparr> e w
      in (\<lparr> commits = int (length userCommits),
             pullRequests = int (length userPRs),
             issues = int (length userIssues),
             prComments = userPRComments,
             issueComments = userIssueComments \<rparr>, w'))"

definition processAndCacheIncrementalData ::
  "string \<Rightarrow> string \<Rightarrow> filtered_data \<Rightarrow> int \<Rightarrow> env \<Rightarrow> world \<Rightarrow> totals \<times> world" where
  "processAndCacheIncrementalData username repoFullName newData lastSyncDateV e w =
     (let userCommits = filter (\<lambda>commit.
              commit_login commit = Some username \<and>
              commit_committedDate commit > lastSyncDateV) (fd_commits newData);
          userPRs = filter (\<lambda>pr.
              pr_login pr = Some username \<and>
              pr_createdAt pr > lastSyncDateV) (fd_pullRequests newData);
          userIssues = filter (\<lambda>issue.
              issue_login issue = Some username \<and>
              issue_createdAt issue > lastSyncDateV) (fd_issues newData);
          userPRComments = foldl (\<lambda>acc pr. acc +
              int (length (filter (\<lambda>comment.
                  comment_login comment = Some username \<and>
                  comment_createdAt comment > lastSyncDateV) (or_empty (pr_comments pr)))))
              0 (fd_pullRequests newData);
          userIssueComments = foldl (\<lambda>acc issue. acc +
              int (length (filter (\<lambda>comment.
                  comment_login comment = Some username \<and>
                  comment_createdAt comment > lastSyncDateV) (or_empty (issue_comments issue)))))
              0 (fd_issues newData);
          w' = cacheDataToMongoDB username repoFullName
                 \<lparr> fd_commits = userCommits, fd_pullRequests = userPRs, fd_issues = userIssues \<rparr> e w
      in (\<lparr> commits = int (length userCommits),
             pullRequests = int (length userPRs),
             issues = int (length userIssues),
             prComments = userPRComments,
             issueComments = userIssueComments \<rparr>, w'))"

text \<open>\<open>Object.values(results).reduce((sum, count) => sum + count, 0)\<close>\<close>

definition sumValues :: "totals \<Rightarrow> int" where
  "sumValues r = 0 + commits r + pullRequests r + issues r + prComments r + issueComments r"

definition repoFullNameOf :: "repo_ref \<Rightarrow> string" where
  "repoFullNameOf repo = owner repo @ ''/'' @ name repo"

definition performFullSync :: "string \<Rightarrow> repo_ref \<Rightarrow> string \<Rightarrow> env \<Rightarrow> world \<Rightarrow> (error + outcome) \<times> world" where
  "performFullSync username repo token e w =
     (let repoFullName = repoFullNameOf repo;
          sixMonthsAgo = analysisStartDate e;
          q = \<lparr> q_token = token, q_owner = owner repo, q_name = name repo,
                q_since = sixMonthsAgo,
                q_commitLimit = maxCommitsPerRepo e,
                q_prLimit = maxPRsPerRepo e,
                q_issueLimit = maxIssuesPerRepo e,
                q_lastPRNumber = None, q_lastIssueNumber = None \<rparr>
      in case graphqlRequest q e w of
           (Inl err, w1) \<Rightarrow> (Inl err, w1)
         | (Inr None, w1) \<Rightarrow> (Inl (TypeError ''Cannot read properties of null''), w1)
         | (Inr (Some None), w1) \<Rightarrow>
             (Inl (Error (''Repository '' @ repoFullName @ '' not found'')), w1)
         | (Inr (Some (Some repository)), w1) \<Rightarrow>
             (case processAndCacheFullData username repoFullName repository sixMonthsAgo e w1 of
                (results, w2) \<Rightarrow>
                  (let w3 = upsert
                         \<lparr> sd_username = username,
                           sd_repo = repoFullName,
                           sd_lastSyncDate = writeTime e,
                           sd_lastCommitSha =
                             (case historyNodes repository of
                                None \<Rightarrow> None
                              | Some [] \<Rightarrow> None
                              | Some (c # _) \<Rightarrow> Some (commit_oid c)),
                           sd_lastPRNumber =
                             Math_max (case pullRequestNodes repository of
                                         None \<Rightarrow> [Num 0]
                                       | Some ns \<Rightarrow> map (\<lambda>pr. Num (pr_number pr)) ns),
                           sd_lastIssueNumber =
                             Math_max (case issueNodes repository of
                                         None \<Rightarrow> [Num 0]
                                       | Some ns \<Rightarrow> map (\<lambda>issue. Num (issue_number issue)) ns),
                           sd_totalItems = results \<rparr> e w2
                   in (Inr \<lparr> out_commits = spread_number commits (Plain results),
                             out_pullRequests = spread_number pullRequests (Plain results),
                             out_issues = spread_number issues (Plain results),
                             out_prComments = spread_number prComments (Plain results),
                             out_issueComments = spread_number issueComments (Plain results),
                             isIncremental = False,
                             itemsFetched = sumValues results \<rparr>, w3))))"

text \<open>\<open>!lastSync.lastCommitSha\<close>: an absent or empty marker is falsy.\<close>

definition noMarker :: "string option \<Rightarrow> bool" where
  "noMarker s = (case s of None \<Rightarrow> True | Some m \<Rightarrow> m = [])"

text \<open>\<open>newCommits[0]?.oid || lastSync.lastCommitSha\<close>\<close>

definition firstOidOr :: "commit_node list \<Rightarrow> string option \<Rightarrow> string option" where
  "firstOidOr newCommits old =
     (case newCommits of
        [] \<Rightarrow> old
      | c # _ \<Rightarrow> (if commit_oid c = [] then old else Some (commit_oid c)))"

definition performIncrementalSync ::
  "string \<Rightarrow> repo_ref \<Rightarrow> string \<Rightarrow> sync_metadata \<Rightarrow> env \<Rightarrow> world \<Rightarrow> (error + outcome) \<times> world" where
  "performIncrementalSync username repo token lastSync e w =
     (let repoFullName = repoFullNameOf repo;
          q = \<lparr> q_token = token, q_owner = owner repo, q_name = name repo,
                q_since = lastSyncDate lastSync,
                q_commitLimit = 100,
                q_prLimit = 50,
                q_issueLimit = 50,
                q_lastPRNumber = Some (or_zero (lastPRNumber lastSync)),
                q_lastIssueNumber = Some (or_zero (lastIssueNumber lastSync)) \<rparr>
      in case graphqlRequest q e w of
           (Inl err, w1) \<Rightarrow> (Inl err, w1)
         | (Inr None, w1) \<Rightarrow> (Inl (TypeError ''Cannot read properties of null''), w1)
         | (Inr (Some None), w1) \<Rightarrow>
             (Inl (Error (''Repository '' @ repoFullName @ '' not found'')), w1)
         | (Inr (Some (Some repository)), w1) \<Rightarrow>
             (let newCommits = (case historyNodes repository of
                                  None \<Rightarrow> []
                                | Some ns \<Rightarrow> filter (\<lambda>commit.
                                    noMarker (lastCommitSha lastSync) \<or>
                                    Some (commit_oid commit) \<noteq> lastCommitSha lastSync) ns);
                  newPRs = (case pullRequestNodes repository of
                              None \<Rightarrow> []
                            | Some ns \<Rightarrow> filter (\<lambda>pr.
                                js_gt (pr_number pr) (or_zero (lastPRNumber lastSync))) ns);
                  newIssues = (case issueNodes repository of
                                 None \<Rightarrow> []
                               | Some ns \<Rightarrow> filter (\<lambda>issue.
                                   js_gt (issue_number issue) (or_zero (lastIssueNumber lastSync))) ns)
              in case processAndCacheIncrementalData username repoFullName
                        \<lparr> fd_commits = newCommits, fd_pullRequests = newPRs, fd_issues = newIssues \<rparr>
                        (lastSyncDate lastSync) e w1 of
                   (newResults, w2) \<Rightarrow>
                     (let updatedTotals =
                            \<lparr> commits = commits (totalItems lastSync) + commits newResults,
                              pullRequests = pullRequests (totalItems lastSync) + pullRequests newResults,
                              issues = issues (totalItems lastSync) + issues newResults,
                              prComments = prComments (totalItems lastSync) + prComments newResults,
                              issueComments = issueComments (totalItems lastSync) + issueComments newResults \<rparr>;
                          w3 = upsert
                            \<lparr> sd_username = username,
                              sd_repo = repoFullName,
                              sd_lastSyncDate = writeTime e,
                              sd_lastCommitSha = firstOidOr newCommits (lastCommitSha lastSync),
                              sd_lastPRNumber =
                                Math_max (map (\<lambda>pr. Num (pr_number pr)) newPRs @
                                          [or_zero (lastPRNumber lastSync)]),
                              sd_lastIssueNumber =
                                Math_max (map (\<lambda>issue. Num (issue_number issue)) newIssues @
                                          [or_zero (lastIssueNumber lastSync)]),
                              sd_totalItems = updatedTotals \<rparr> e w2
                      in (Inr \<lparr> out_commits = spread_number commits (Plain updatedTotals),
                                out_pullRequests = spread_number pullRequests (Plain updatedTotals),
                                out_issues = spread_number issues (Plain updatedTotals),
                                out_prComments = spread_number prComments (Plain updatedTotals),
                                out_issueComments = spread_number issueComments (Plain updatedTotals),
                                isIncremental = True,
                                itemsFetched = sumValues newResults \<rparr>, w3))))"

text \<open>
  \<open>lastSync\<close> is the hydrated document. The freshness check and
  \<open>performIncrementalSync\<close> read its fields; the fresh branch spreads its nested
  \<open>totalItems\<close>.
\<close>

definition syncUserRepoActivity ::
  "string \<Rightarrow> repo_ref \<Rightarrow> string \<Rightarrow> env \<Rightarrow> world \<Rightarrow> (error + outcome) \<times> world" where
  "syncUserRepoActivity username repo token e w =
     (let repoFullName = repoFullNameOf repo in
      case findByUsernameAndRepo username repoFullName w of
        None \<Rightarrow> performFullSync username repo token e w
      | Some lastSync \<Rightarrow>
          (let cacheAge = now e - lastSyncDate (doc_fields lastSync);
               cacheValidityMs = incrementalSyncIntervalHours e * 60 * 60 * 1000
           in if cacheAge < cacheValidityMs
              then (Inr \<lparr> out_commits = spread_number commits (nested totalItems lastSync),
                          out_pullRequests = spread_number pullRequests (nested totalItems lastSync),
                          out_issues = spread_number issues (nested totalItems lastSync),
                          out_prComments = spread_number prComments (nested totalItems lastSync),
                          out_issueComments = spread_number issueComments (nested totalItems lastSync),
                          isIncremental = False,
                          itemsFetched = 0 \<rparr>, w)
              else performIncrementalSync username repo token (doc_fields lastSync) e w))"

section \<open>Notions used to state the properties\<close>

text \<open>
  The totals stored for a key; a key with no document has counted nothing, which is also
  the schema's default for \<open>totalItems\<close>.
\<close>

definition zeroTotals :: totals where
  "zeroTotals = \<lparr> commits = 0, pullRequests = 0, issues = 0, prComments = 0, issueComments = 0 \<rparr>"

definition storedTotals :: "string \<Rightarrow> repo_ref \<Rightarrow> world \<Rightarrow> totals" where
  "storedTotals username repo w =
     (case syncMetadata w (username, repoFullNameOf repo) of
        None \<Rightarrow> zeroTotals
      | Some m \<Rightarrow> totalItems m)"

definition totals_le :: "totals \<Rightarrow> totals \<Rightarrow> bool" where
  "totals_le a b = (commits a \<le> commits b \<and> pullRequests a \<le> pullRequests b \<and>
     issues a \<le> issues b \<and> prComments a \<le> prComments b \<and> issueComments a \<le> issueComments b)"

text \<open>
  Sequential calls for one key, one after the other, each with its own clock and data
  source; the result is the state after the last call when every call succeeded.
\<close>

fun runSyncs :: "string \<Rightarrow> repo_ref \<Rightarrow> string \<Rightarrow> env list \<Rightarrow> world \<Rightarrow> world option" where
  "runSyncs username repo token [] w = Some w"
| "runSyncs username repo token (e # es) w =
     (case syncUserRepoActivity username repo token e w of
        (Inl err, w') \<Rightarrow> None
      | (Inr out, w') \<Rightarrow> runSyncs username repo token es w')"

text \<open>A commit identifier differs from the stored marker (an absent or empty marker matches nothing).\<close>

definition differsFromMarker :: "string \<Rightarrow> string option \<Rightarrow> bool" where
  "differsFromMarker oid marker = (case marker of None \<Rightarrow> True | Some m \<Rightarrow> m = [] \<or> oid \<noteq> m)"

text \<open>A number strictly exceeds the stored watermark (an absent watermark counts as 0).\<close>

definition exceeds :: "int \<Rightarrow> jsnum option \<Rightarrow> bool" where
  "exceeds n watermark =
     (case watermark of None \<Rightarrow> 0 < n | Some NegInfinity \<Rightarrow> True | Some (Num k) \<Rightarrow> k < n)"

text \<open>
  Nothing in the repository is newer than the watermarks \<open>m\<close>: every commit is the
  marker commit or carries an instant at or before \<open>lastSyncDate\<close>; every pull request
  and issue has a number at or below its watermark, or was created, with all its
  comments, at or before \<open>lastSyncDate\<close>.
\<close>

definition notNewerThanWatermarks :: "sync_metadata \<Rightarrow> repository \<Rightarrow> bool" where
  "notNewerThanWatermarks m r =
     (list_all (\<lambda>c. commit_committedDate c \<le> lastSyncDate m \<or>
                     \<not> differsFromMarker (commit_oid c) (lastCommitSha m))
        (or_empty (historyNodes r)) \<and>
      list_all (\<lambda>p. (pr_createdAt p \<le> lastSyncDate m \<and>
                      list_all (\<lambda>k. comment_createdAt k \<le> lastSyncDate m) (or_empty (pr_comments p))) \<or>
                     \<not> exceeds (pr_number p) (lastPRNumber m))
        (or_empty (pullRequestNodes r)) \<and>
      list_all (\<lambda>i. (issue_createdAt i \<le> lastSyncDate m \<and>
                      list_all (\<lambda>k. comment_createdAt k \<le> lastSyncDate m) (or_empty (issue_comments i))) \<or>
                     \<not> exceeds (issue_number i) (lastIssueNumber m))
        (or_empty (issueNodes r)))"

section \<open>The scenario of the specification: repository octo/demo, user octocat\<close>

definition demo_repo :: repo_ref where
  "demo_repo = \<lparr> owner = ''octo'', name = ''demo'' \<rparr>"

definition demo_commit :: "string \<Rightarrow> int \<Rightarrow> commit_node" where
  "demo_commit oid t = \<lparr> commit_oid = oid, commit_login = Some ''octocat'',
      commit_committedDate = t, commit_message = ''work'' \<rparr>"

definition demo_comment :: "string \<Rightarrow> string \<Rightarrow> int \<Rightarrow> comment_node" where
  "demo_comment i who t = \<lparr> comment_id = i, comment_body = ''ok'', comment_createdAt = t,
      comment_login = Some who \<rparr>"

definition demo_pr :: pr_node where
  "demo_pr = \<lparr> pr_number = 7, pr_title = ''feature'', pr_state = ''OPEN'', pr_createdAt = 150,
      pr_closedAt = None, pr_mergedAt = None, pr_login = Some ''octocat'',
      pr_comments = Some [demo_comment ''k1'' ''octocat'' 160, demo_comment ''k2'' ''hubot'' 170,
                          demo_comment ''k3'' ''octocat'' 180] \<rparr>"

text \<open>Three commits and one pull request by octocat, two of its three comments by octocat, no issue.\<close>

definition demo_repository :: repository where
  "demo_repository = \<lparr> historyNodes = Some [demo_commit ''c3'' 300, demo_commit ''c2'' 200, demo_commit ''c1'' 100],
      pullRequestNodes = Some [demo_pr], issueNodes = Some [] \<rparr>"

text \<open>
  A call at instant \<open>t\<close> that persists one millisecond later, against a data source that
  answers every request with \<open>resp\<close>; interval 4 hours, analysis horizon at instant 0.
\<close>

definition env_at :: "int \<Rightarrow> http_response \<Rightarrow> env" where
  "env_at t resp = \<lparr> now = t, writeTime = t + 1,
      github = (\<lambda>q. resp),
      incrementalSyncIntervalHours = 4, analysisStartDate = 0,
      maxCommitsPerRepo = 100, maxPRsPerRepo = 100, maxIssuesPerRepo = 100 \<rparr>"

definition ok_response :: "repository \<Rightarrow> http_response" where
  "ok_response r = HttpOk \<lparr> errors = None, data = Some (Some r) \<rparr>"

definition demo_env :: env where
  "demo_env = env_at 1000 (ok_response demo_repository)"

text \<open>Later, upstream has one more commit by octocat.\<close>

definition later_repository :: repository where
  "later_repository = \<lparr> historyNodes = Some [demo_commit ''c4'' 15000000, demo_commit ''c3'' 300],
      pullRequestNodes = Some [demo_pr], issueNodes = Some [] \<rparr>"

definition later_env :: env where
  "later_env = env_at 20000000 (ok_response later_repository)"

definition empty_world :: world where
  "empty_world = \<lparr> syncMetadata = (\<lambda>k. None), commitsSink = [], pullRequestsSink = [],
      issuesSink = [], requests = [] \<rparr>"

text \<open>A store that already holds a watermark for the key, written at instant 1001.\<close>

definition demo_metadata :: sync_metadata where
  "demo_metadata = \<lparr> sm_username = ''octocat'', sm_repo = ''octo/demo'', lastSyncDate = 1001,
      lastCommitSha = Some ''c3'', lastPRNumber = Some (Num 7), lastIssueNumber = Some (Num 0),
      totalItems = \<lparr> commits = 3, pullRequests = 1, issues = 0, prComments = 2, issueComments = 0 \<rparr>,
      fetchedAt = 1001 \<rparr>"

definition cached_world :: world where
  "cached_world = empty_world\<lparr> syncMetadata :=
      (\<lambda>k. if k = (''octocat'', ''octo/demo'') then Some demo_metadata else None) \<rparr>"

text \<open>A repository that resolves and has no commit, no pull request and no issue.\<close>

definition bare_repository :: repository where
  "bare_repository = \<lparr> historyNodes = Some [], pullRequestNodes = Some [], issueNodes = Some [] \<rparr>"

text \<open>The data source reports an application-level error.\<close>

definition error_response :: http_response where
  "error_response = HttpOk \<lparr> errors = Some [Some ''Could not resolve to a Repository''],
                              data = Some None \<rparr>"

text \<open>The state after the first call of the scenario.\<close>

definition after_first_sync :: world where
  "after_first_sync = snd (syncUserRepoActivity ''octocat'' demo_repo ''tok'' demo_env empty_world)"

text \<open>
  A later snapshot with activity of every kind: a new commit by octocat, a commit that
  carries the stored marker \<open>c3\<close> with a recent date, an old commit; pull request 9 by
  octocat, pull request 8 by hubot with a recent comment by octocat, and pull request 7
  (the stored watermark) with a recent comment by octocat; a new issue by octocat with a
  comment by octocat.
\<close>

definition busy_repository :: repository where
  "busy_repository = \<lparr>
      historyNodes = Some [demo_commit ''c5'' 15000001, demo_commit ''c3'' 16000000, demo_commit ''c2'' 200],
      pullRequestNodes = Some [
        \<lparr> pr_number = 9, pr_title = ''fix'', pr_state = ''OPEN'', pr_createdAt = 15000003,
          pr_closedAt = None, pr_mergedAt = None, pr_login = Some ''octocat'', pr_comments = Some [] \<rparr>,
        \<lparr> pr_number = 8, pr_title = ''docs'', pr_state = ''OPEN'', pr_createdAt = 15000000,
          pr_closedAt = None, pr_mergedAt = None, pr_login = Some ''hubot'',
          pr_comments = Some [demo_comment ''k5'' ''octocat'' 15000002] \<rparr>,
        demo_pr\<lparr> pr_comments := Some [demo_comment ''k4'' ''octocat'' 15000005,
                                      demo_comment ''k1'' ''octocat'' 160] \<rparr>],
      issueNodes = Some [
        \<lparr> issue_number = 1, issue_title = ''bug'', issue_state = ''OPEN'', issue_createdAt = 15000004,
          issue_closedAt = None, issue_login = Some ''octocat'',
          issue_comments = Some [demo_comment ''k6'' ''octocat'' 15000006] \<rparr>] \<rparr>"

text \<open>
  A snapshot in which the second commit of the history and one comment on pull request 7
  carry instants after the moment the first sync persists (1001), as a skewed clock or a
  chosen committer date gives; and the state after a first sync of it.
\<close>

definition skewed_repository :: repository where
  "skewed_repository = \<lparr>
      historyNodes = Some [demo_commit ''c3'' 300, demo_commit ''c2'' 5000, demo_commit ''c1'' 100],
      pullRequestNodes = Some [demo_pr\<lparr> pr_comments :=
          Some [demo_comment ''k1'' ''octocat'' 160, demo_comment ''k2'' ''hubot'' 170,
                demo_comment ''k3'' ''octocat'' 6000] \<rparr>],
      issueNodes = Some [] \<rparr>"


section \<open>Auxiliary facts\<close>

lemmas demo_defs = demo_repo_def demo_commit_def demo_comment_def demo_pr_def demo_repository_def
  demo_env_def empty_world_def env_at_def ok_response_def later_repository_def later_env_def
  demo_metadata_def cached_world_def bare_repository_def error_response_def
  busy_repository_def skewed_repository_def

lemmas sync_defs = syncUserRepoActivity_def performFullSync_def performIncrementalSync_def
  processAndCacheFullData_def processAndCacheIncrementalData_def cacheDataToMongoDB_def
  graphqlRequest_def upsert_def findByUsernameAndRepo_def repoFullNameOf_def repoOwnerOf_def
  or_empty_def sumValues_def firstErrorMessage_def noMarker_def firstOidOr_def

lemma foldl_add_sum:
  "foldl (\<lambda>acc x. acc + f x) a xs = (a::int) + sum_list (map f xs)"
  by (induction xs arbitrary: a) simp_all

lemma foldl_count_nonneg: "0 \<le> foldl (\<lambda>acc x. acc + int (g x)) 0 xs"
  by (auto simp: foldl_add_sum intro!: sum_list_nonneg)

lemma sum_count_concat:
  "sum_list (map (\<lambda>p. int (length (filter P (g p)))) ps) =
     int (length (filter P (concat (map g ps))))"
  by (induction ps) simp_all

lemma js_gt_or_zero: "js_gt n (or_zero wm) = exceeds n wm"
  by (cases wm rule: or_zero.cases) (simp_all add: exceeds_def)

lemma marker_test:
  "(noMarker marker \<or> Some oid \<noteq> marker) = differsFromMarker oid marker"
  by (auto simp: noMarker_def differsFromMarker_def split: option.splits)

lemma cache_syncMetadata [simp]:
  "syncMetadata (cacheDataToMongoDB u rn d e w) = syncMetadata w"
  by (simp add: cacheDataToMongoDB_def Let_def)

lemma cache_requests [simp]:
  "requests (cacheDataToMongoDB u rn d e w) = requests w"
  by (simp add: cacheDataToMongoDB_def Let_def)

lemma upsert_syncMetadata_key:
  "syncMetadata (upsert sd e w) k =
     (if k = (sd_username sd, sd_repo sd)
      then Some \<lparr> sm_username = sd_username sd, sm_repo = sd_repo sd,
            lastSyncDate = sd_lastSyncDate sd,
            lastCommitSha = (case sd_lastCommitSha sd of
                               None \<Rightarrow> (case syncMetadata w (sd_username sd, sd_repo sd) of
                                          None \<Rightarrow> None | Some d \<Rightarrow> lastCommitSha d)
                             | Some s \<Rightarrow> Some s),
            lastPRNumber = Some (sd_lastPRNumber sd),
            lastIssueNumber = Some (sd_lastIssueNumber sd),
            totalItems = sd_totalItems sd,
            fetchedAt = writeTime e \<rparr>
      else syncMetadata w k)"
  by (simp add: upsert_def Let_def)

lemma upsert_frame [simp]:
  "commitsSink (upsert sd e w) = commitsSink w"
  "pullRequestsSink (upsert sd e w) = pullRequestsSink w"
  "issuesSink (upsert sd e w) = issuesSink w"
  "requests (upsert sd e w) = requests w"
  by (simp_all add: upsert_def Let_def)

lemma full_totals:
  "fst (processAndCacheFullData u rn r h e w) =
     \<lparr> commits = int (length (filter (\<lambda>c. commit_login c = Some u \<and> h \<le> commit_committedDate c) (or_empty (historyNodes r)))),
       pullRequests = int (length (filter (\<lambda>p. pr_login p = Some u \<and> h \<le> pr_createdAt p) (or_empty (pullRequestNodes r)))),
       issues = int (length (filter (\<lambda>i. issue_login i = Some u \<and> h \<le> issue_createdAt i) (or_empty (issueNodes r)))),
       prComments = sum_list (map (\<lambda>p. int (length (filter (\<lambda>k. comment_login k = Some u \<and> h \<le> comment_createdAt k) (or_empty (pr_comments p))))) (or_empty (pullRequestNodes r))),
       issueComments = sum_list (map (\<lambda>i. int (length (filter (\<lambda>k. comment_login k = Some u \<and> h \<le> comment_createdAt k) (or_empty (issue_comments i))))) (or_empty (issueNodes r))) \<rparr>"
  by (simp add: processAndCacheFullData_def Let_def foldl_add_sum)

lemma inc_totals:
  "fst (processAndCacheIncrementalData u rn d t e w) =
     \<lparr> commits = int (length (filter (\<lambda>c. commit_login c = Some u \<and> t < commit_committedDate c) (fd_commits d))),
       pullRequests = int (length (filter (\<lambda>p. pr_login p = Some u \<and> t < pr_createdAt p) (fd_pullRequests d))),
       issues = int (length (filter (\<lambda>i. issue_login i = Some u \<and> t < issue_createdAt i) (fd_issues d))),
       prComments = sum_list (map (\<lambda>p. int (length (filter (\<lambda>k. comment_login k = Some u \<and> t < comment_createdAt k) (or_empty (pr_comments p))))) (fd_pullRequests d)),
       issueComments = sum_list (map (\<lambda>i. int (length (filter (\<lambda>k. comment_login k = Some u \<and> t < comment_createdAt k) (or_empty (issue_comments i))))) (fd_issues d)) \<rparr>"
  by (simp add: processAndCacheIncrementalData_def Let_def foldl_add_sum)

lemma full_sync_stored:
  assumes "performFullSync u repo tok e w = (Inr out, w')"
  shows "\<exists>m. syncMetadata w' (u, repoFullNameOf repo) = Some m \<and>
             0 \<le> commits (totalItems m) \<and> 0 \<le> pullRequests (totalItems m) \<and>
             0 \<le> issues (totalItems m) \<and> 0 \<le> prComments (totalItems m) \<and>
             0 \<le> issueComments (totalItems m)"
  using assms
  by (auto simp: performFullSync_def Let_def upsert_syncMetadata_key foldl_count_nonneg
        processAndCacheFullData_def
        split: prod.splits sum.splits option.splits)

text \<open>What a successful incremental sync returns and stores, in one place.\<close>

lemma performIncrementalSync_Inr:
  assumes "performIncrementalSync u repo tok m0 e w = (Inr out, w')"
  shows "\<exists>q body r.
           requests w' = requests w @ [q] \<and> github e q = HttpOk body \<and>
           errors body = None \<and> data body = Some (Some r) \<and>
           (let nd = \<lparr> fd_commits = filter (\<lambda>c. differsFromMarker (commit_oid c) (lastCommitSha m0))
                                      (or_empty (historyNodes r)),
                        fd_pullRequests = filter (\<lambda>p. exceeds (pr_number p) (lastPRNumber m0))
                                      (or_empty (pullRequestNodes r)),
                        fd_issues = filter (\<lambda>i. exceeds (issue_number i) (lastIssueNumber m0))
                                      (or_empty (issueNodes r)) \<rparr>;
                 nr = fst (processAndCacheIncrementalData u (repoFullNameOf repo) nd (lastSyncDate m0) e w)
            in out_commits out = Some (commits (totalItems m0) + commits nr) \<and>
               out_pullRequests out = Some (pullRequests (totalItems m0) + pullRequests nr) \<and>
               out_issues out = Some (issues (totalItems m0) + issues nr) \<and>
               out_prComments out = Some (prComments (totalItems m0) + prComments nr) \<and>
               out_issueComments out = Some (issueComments (totalItems m0) + issueComments nr) \<and>
               isIncremental out \<and> itemsFetched out = sumValues nr \<and>
               (\<exists>m. syncMetadata w' (u, repoFullNameOf repo) = Some m \<and>
                    Some (commits (totalItems m)) = out_commits out \<and>
                    Some (pullRequests (totalItems m)) = out_pullRequests out \<and>
                    Some (issues (totalItems m)) = out_issues out \<and>
                    Some (prComments (totalItems m)) = out_prComments out \<and>
                    Some (issueComments (totalItems m)) = out_issueComments out))"
  using assms
  apply (simp add: performIncrementalSync_def Let_def graphqlRequest_def js_gt_or_zero marker_test
        split: prod.splits sum.splits option.splits http_response.splits)
  apply (auto simp: upsert_syncMetadata_key or_empty_def processAndCacheIncrementalData_def Let_def)
  done

lemma inc_sync_stored:
  assumes "performIncrementalSync u repo tok m0 e w = (Inr out, w')"
  shows "\<exists>m. syncMetadata w' (u, repoFullNameOf repo) = Some m \<and>
             commits (totalItems m0) \<le> commits (totalItems m) \<and>
             pullRequests (totalItems m0) \<le> pullRequests (totalItems m) \<and>
             issues (totalItems m0) \<le> issues (totalItems m) \<and>
             prComments (totalItems m0) \<le> prComments (totalItems m) \<and>
             issueComments (totalItems m0) \<le> issueComments (totalItems m)"
  using assms
  by (auto simp: performIncrementalSync_def Let_def upsert_syncMetadata_key foldl_count_nonneg
        processAndCacheIncrementalData_def
        split: prod.splits sum.splits option.splits)

lemma sync_step_monotone:
  assumes "syncUserRepoActivity u repo tok e w = (Inr out, w')"
  shows "totals_le (storedTotals u repo w) (storedTotals u repo w')"
proof (cases "syncMetadata w (u, repoFullNameOf repo)")
  case None
  with assms have "performFullSync u repo tok e w = (Inr out, w')"
    by (simp add: syncUserRepoActivity_def findByUsernameAndRepo_def Let_def)
  from full_sync_stored [OF this] None show ?thesis
    by (auto simp: totals_le_def storedTotals_def findByUsernameAndRepo_def zeroTotals_def)
next
  case (Some m0)
  show ?thesis
  proof (cases "now e - lastSyncDate m0 < incrementalSyncIntervalHours e * 60 * 60 * 1000")
    case True
    with assms Some have "w' = w"
      by (simp add: syncUserRepoActivity_def findByUsernameAndRepo_def Let_def)
    then show ?thesis by (simp add: totals_le_def)
  next
    case False
    with assms Some have "performIncrementalSync u repo tok m0 e w = (Inr out, w')"
      by (simp add: syncUserRepoActivity_def findByUsernameAndRepo_def Let_def)
    from inc_sync_stored [OF this] Some show ?thesis
      by (auto simp: totals_le_def storedTotals_def findByUsernameAndRepo_def)
  qed
qed

lemma runSyncs_snoc:
  "runSyncs u repo tok (es @ [e]) w =
     (case runSyncs u repo tok es w of
        None \<Rightarrow> None
      | Some w1 \<Rightarrow> runSyncs u repo tok [e] w1)"
  by (induction es arbitrary: w) (auto split: prod.splits sum.splits)

section \<open>The claims\<close>

text \<open>
  C2. Monotonicity. For any key and any sequence of successful sequential calls of
  \<open>syncUserRepoActivity\<close>, each of the five stored totals after the last call is at least
  its value after the call before it. \<open>w1\<close> is the state after the calls \<open>es\<close> and \<open>w2\<close>
  the state after one more call \<open>e\<close>; a failed call makes \<open>runSyncs\<close> return \<open>None\<close>.
\<close>

theorem totals_monotone:
  assumes "runSyncs username repo token es w = Some w1"
      and "runSyncs username repo token (es @ [e]) w = Some w2"
  shows "totals_le (storedTotals username repo w1) (storedTotals username repo w2)"
proof -
  from assms have "runSyncs username repo token [e] w1 = Some w2"
    by (simp add: runSyncs_snoc)
  then obtain out where "syncUserRepoActivity username repo token e w1 = (Inr out, w2)"
    by (auto split: prod.splits sum.splits)
  then show ?thesis by (rule sync_step_monotone)
qed

theorem totals_monotone_witness:
  "storedTotals ''octocat'' demo_repo
     (the (runSyncs ''octocat'' demo_repo ''tok'' [demo_env] empty_world)) =
     \<lparr> commits = 3, pullRequests = 1, issues = 0, prComments = 2, issueComments = 0 \<rparr> \<and>
   storedTotals ''octocat'' demo_repo
     (the (runSyncs ''octocat'' demo_repo ''tok'' ([demo_env] @ [later_env]) empty_world)) =
     \<lparr> commits = 4, pullRequests = 1, issues = 0, prComments = 2, issueComments = 0 \<rparr> \<and>
   totals_le
     (storedTotals ''octocat'' demo_repo
        (the (runSyncs ''octocat'' demo_repo ''tok'' [demo_env] empty_world)))
     (storedTotals ''octocat'' demo_repo
        (the (runSyncs ''octocat'' demo_repo ''tok'' ([demo_env] @ [later_env]) empty_world)))"
proof -
  let ?first = "syncUserRepoActivity ''octocat'' demo_repo ''tok'' demo_env empty_world"
  let ?second = "syncUserRepoActivity ''octocat'' demo_repo ''tok'' later_env after_first_sync"
  have f: "fst ?first = Inr \<lparr> out_commits = Some 3, out_pullRequests = Some 1, out_issues = Some 0,
           out_prComments = Some 2, out_issueComments = Some 0,
           isIncremental = False, itemsFetched = 6 \<rparr>"
    by (simp add: demo_defs sync_defs Let_def)
  have s: "fst ?second = Inr \<lparr> out_commits = Some 4, out_pullRequests = Some 1, out_issues = Some 0,
           out_prComments = Some 2, out_issueComments = Some 0,
           isIncremental = True, itemsFetched = 1 \<rparr>"
    by (simp add: after_first_sync_def demo_defs sync_defs Let_def)
  have a: "runSyncs ''octocat'' demo_repo ''tok'' [demo_env] empty_world = Some after_first_sync"
    using f by (auto simp: after_first_sync_def split: prod.splits sum.splits)
  have c: "runSyncs ''octocat'' demo_repo ''tok'' ([demo_env] @ [later_env]) empty_world =
      Some (snd ?second)"
    using f s by (auto simp: after_first_sync_def split: prod.splits sum.splits)
  have t1: "storedTotals ''octocat'' demo_repo after_first_sync =
     \<lparr> commits = 3, pullRequests = 1, issues = 0, prComments = 2, issueComments = 0 \<rparr>"
    by (simp add: after_first_sync_def demo_defs sync_defs storedTotals_def Let_def)
  have t2: "storedTotals ''octocat'' demo_repo (snd ?second) =
     \<lparr> commits = 4, pullRequests = 1, issues = 0, prComments = 2, issueComments = 0 \<rparr>"
    by (simp add: after_first_sync_def demo_defs sync_defs storedTotals_def Let_def)
  from totals_monotone [OF a c] a c t1 t2 show ?thesis by simp
qed

text \<open>
  The fresh branch. When a watermark exists for the key and its age is strictly below the
  incremental-sync interval, the call posts no request and writes nothing (the state is
  returned as it was), with \<open>isIncremental = False\<close> and \<open>itemsFetched = 0\<close>; the five
  counters of the returned object are \<open>undefined\<close>, because the spread of the hydrated
  \<open>totalItems\<close> copies none of them.
\<close>

lemma fresh_cache_no_effect:
  assumes "syncMetadata w (username, repoFullNameOf repo) = Some m"
      and "now e - lastSyncDate m < incrementalSyncIntervalHours e * 60 * 60 * 1000"
  shows "syncUserRepoActivity username repo token e w =
           (Inr \<lparr> out_commits = None,
                   out_pullRequests = None,
                   out_issues = None,
                   out_prComments = None,
                   out_issueComments = None,
                   isIncremental = False,
                   itemsFetched = 0 \<rparr>, w)"
  using assms by (simp add: syncUserRepoActivity_def findByUsernameAndRepo_def Let_def)

text \<open>
  C3. Freshness short-circuit. The claim asks that a call on a fresh watermark return
  exactly the five stored totals, with \<open>isIncremental = False\<close> and \<open>itemsFetched = 0\<close>,
  without a request and without a write. In the scenario's second call, one hour after a
  sync stored the totals 3, 1, 0, 2, 0, the code posts no request and writes nothing, and
  returns \<open>isIncremental = False\<close> and \<open>itemsFetched = 0\<close>, but none of the five totals:
  \<open>{...lastSync.totalItems}\<close> spreads a hydrated subdocument.
\<close>

theorem fresh_cache_returns_no_totals:
  "syncMetadata cached_world (''octocat'', ''octo/demo'') = Some demo_metadata \<and>
   totalItems demo_metadata =
     \<lparr> commits = 3, pullRequests = 1, issues = 0, prComments = 2, issueComments = 0 \<rparr> \<and>
   syncUserRepoActivity ''octocat'' demo_repo ''tok'' (env_at 3601001 (HttpFailure ''offline'')) cached_world =
     (Inr \<lparr> out_commits = None, out_pullRequests = None, out_issues = None,
             out_prComments = None, out_issueComments = None,
             isIncremental = False, itemsFetched = 0 \<rparr>, cached_world)"
  by (simp add: demo_defs sync_defs Let_def)

text \<open>
  What a successful full sync stores as \<open>lastPRNumber\<close>: 0 when the response has no
  \<open>pullRequests.nodes\<close> at all, and otherwise \<open>Math.max\<close> over the numbers of the nodes,
  also when there is none.
\<close>

lemma full_sync_watermark_numbers:
  assumes "performFullSync u repo tok e w = (Inr out, w')"
      and "requests w' = requests w @ [q]"
      and "github e q = HttpOk body" and "data body = Some (Some r)"
  shows "map_option lastPRNumber (syncMetadata w' (u, repoFullNameOf repo)) =
           Some (Some (case pullRequestNodes r of
                         None \<Rightarrow> Num 0
                       | Some ns \<Rightarrow> Math_max (map (\<lambda>p. Num (pr_number p)) ns)))"
  using assms
  apply (simp add: performFullSync_def Let_def graphqlRequest_def
        split: prod.splits sum.splits option.splits http_response.splits)
  apply (auto simp: upsert_syncMetadata_key processAndCacheFullData_def Let_def)
  done


text \<open>
  C1. Empty-window watermark. The claim asks that a full sync whose pull-request (or issue)
  node set is empty store a defined "none seen" marker, never a maximum over an empty
  collection. The code does not: \<open>[].map(...) || [0]\<close> keeps the empty array, which is
  truthy, so \<open>Math.max()\<close> is taken over no argument. For a repository with empty node
  sets the first sync stores \<open>-Infinity\<close> as \<open>lastPRNumber\<close> and as \<open>lastIssueNumber\<close>.
\<close>

theorem full_sync_empty_sets_store_neg_infinity:
  "map_option lastPRNumber
     (syncMetadata (snd (syncUserRepoActivity ''octocat'' demo_repo ''tok''
                           (env_at 1000 (ok_response bare_repository)) empty_world))
        (''octocat'', ''octo/demo'')) = Some (Some NegInfinity) \<and>
   map_option lastIssueNumber
     (syncMetadata (snd (syncUserRepoActivity ''octocat'' demo_repo ''tok''
                           (env_at 1000 (ok_response bare_repository)) empty_world))
        (''octocat'', ''octo/demo'')) = Some (Some NegInfinity)"
  by (simp add: demo_defs bare_repository_def sync_defs Let_def)


text \<open>Requests posted, and what happens when the data source reports a failure.\<close>

lemma process_full_frame:
  assumes "processAndCacheFullData u rn r h e w = (res, w')"
  shows "requests w' = requests w" and "syncMetadata w' = syncMetadata w"
  using assms by (auto simp: processAndCacheFullData_def Let_def)

lemma process_inc_frame:
  assumes "processAndCacheIncrementalData u rn d t e w = (res, w')"
  shows "requests w' = requests w" and "syncMetadata w' = syncMetadata w"
  using assms by (auto simp: processAndCacheIncrementalData_def Let_def)

lemma full_sync_requests:
  "requests (snd (performFullSync u repo tok e w)) = requests w @
     [\<lparr> q_token = tok, q_owner = owner repo, q_name = name repo,
        q_since = analysisStartDate e, q_commitLimit = maxCommitsPerRepo e,
        q_prLimit = maxPRsPerRepo e, q_issueLimit = maxIssuesPerRepo e,
        q_lastPRNumber = None, q_lastIssueNumber = None \<rparr>]"
  by (auto simp: performFullSync_def Let_def graphqlRequest_def process_full_frame
        split: prod.splits sum.splits option.splits http_response.splits)

lemma inc_sync_requests:
  "requests (snd (performIncrementalSync u repo tok m0 e w)) = requests w @
     [\<lparr> q_token = tok, q_owner = owner repo, q_name = name repo,
        q_since = lastSyncDate m0, q_commitLimit = 100, q_prLimit = 50, q_issueLimit = 50,
        q_lastPRNumber = Some (or_zero (lastPRNumber m0)),
        q_lastIssueNumber = Some (or_zero (lastIssueNumber m0)) \<rparr>]"
  by (auto simp: performIncrementalSync_def Let_def graphqlRequest_def process_inc_frame
        split: prod.splits sum.splits option.splits http_response.splits)

lemma full_sync_upstream_failure:
  assumes "github e \<lparr> q_token = tok, q_owner = owner repo, q_name = name repo,
        q_since = analysisStartDate e, q_commitLimit = maxCommitsPerRepo e,
        q_prLimit = maxPRsPerRepo e, q_issueLimit = maxIssuesPerRepo e,
        q_lastPRNumber = None, q_lastIssueNumber = None \<rparr> = HttpOk body"
      and "errors body \<noteq> None \<or> data body = Some None"
  shows "fst (performFullSync u repo tok e w) =
           Inl (Error (case errors body of
                         Some errs \<Rightarrow> ''GitHub GraphQL error: '' @ firstErrorMessage errs
                       | None \<Rightarrow> ''Repository '' @ owner repo @ ''/'' @ name repo @ '' not found''))"
    and "syncMetadata (snd (performFullSync u repo tok e w)) = syncMetadata w"
    and "commitsSink (snd (performFullSync u repo tok e w)) = commitsSink w"
    and "pullRequestsSink (snd (performFullSync u repo tok e w)) = pullRequestsSink w"
    and "issuesSink (snd (performFullSync u repo tok e w)) = issuesSink w"
  using assms
  by (auto simp: performFullSync_def Let_def graphqlRequest_def repoFullNameOf_def
        split: option.splits)

lemma inc_sync_upstream_failure:
  assumes "github e \<lparr> q_token = tok, q_owner = owner repo, q_name = name repo,
        q_since = lastSyncDate m0, q_commitLimit = 100, q_prLimit = 50, q_issueLimit = 50,
        q_lastPRNumber = Some (or_zero (lastPRNumber m0)),
        q_lastIssueNumber = Some (or_zero (lastIssueNumber m0)) \<rparr> = HttpOk body"
      and "errors body \<noteq> None \<or> data body = Some None"
  shows "fst (performIncrementalSync u repo tok m0 e w) =
           Inl (Error (case errors body of
                         Some errs \<Rightarrow> ''GitHub GraphQL error: '' @ firstErrorMessage errs
                       | None \<Rightarrow> ''Repository '' @ owner repo @ ''/'' @ name repo @ '' not found''))"
    and "syncMetadata (snd (performIncrementalSync u repo tok m0 e w)) = syncMetadata w"
    and "commitsSink (snd (performIncrementalSync u repo tok m0 e w)) = commitsSink w"
    and "pullRequestsSink (snd (performIncrementalSync u repo tok m0 e w)) = pullRequestsSink w"
    and "issuesSink (snd (performIncrementalSync u repo tok m0 e w)) = issuesSink w"
  using assms
  by (auto simp: performIncrementalSync_def Let_def graphqlRequest_def repoFullNameOf_def
        split: option.splits)


text \<open>
  C6. Upstream failure. Whenever a call posts a request \<open>q\<close> and the data source
  answers it with an application-level error (\<open>errors\<close> present) or with a repository
  that resolves to nothing, the call fails with an \<open>Error\<close>: its message is the
  upstream message of the first error behind the prefix \<open>GitHub GraphQL error: \<close>
  (\<open>Unknown error\<close> when that error has no message), or names the repository that was
  not found. The sync-metadata collection and the three sinks are as before the call.
\<close>

theorem upstream_failure_no_write:
  assumes call: "syncUserRepoActivity username repo token e w = (res, w')"
      and issued: "requests w' = requests w @ [q]"
      and resp: "github e q = HttpOk body"
      and bad: "errors body \<noteq> None \<or> data body = Some None"
  shows "res = Inl (Error (case errors body of
                       Some errs \<Rightarrow> ''GitHub GraphQL error: '' @ firstErrorMessage errs
                     | None \<Rightarrow> ''Repository '' @ owner repo @ ''/'' @ name repo @ '' not found'')) \<and>
         (\<forall>m rest. errors body = Some (Some m # rest) \<longrightarrow> m \<noteq> [] \<longrightarrow>
              res = Inl (Error (''GitHub GraphQL error: '' @ m))) \<and>
         syncMetadata w' = syncMetadata w \<and> commitsSink w' = commitsSink w \<and>
         pullRequestsSink w' = pullRequestsSink w \<and> issuesSink w' = issuesSink w"
proof -
  have main: "res = Inl (Error (case errors body of
                       Some errs \<Rightarrow> ''GitHub GraphQL error: '' @ firstErrorMessage errs
                     | None \<Rightarrow> ''Repository '' @ owner repo @ ''/'' @ name repo @ '' not found'')) \<and>
         syncMetadata w' = syncMetadata w \<and> commitsSink w' = commitsSink w \<and>
         pullRequestsSink w' = pullRequestsSink w \<and> issuesSink w' = issuesSink w"
  proof (cases "syncMetadata w (username, repoFullNameOf repo)")
    case None
    with call have full: "performFullSync username repo token e w = (res, w')"
      by (simp add: syncUserRepoActivity_def findByUsernameAndRepo_def Let_def)
    from full_sync_requests [of username repo token e w] full issued resp
    have "github e \<lparr> q_token = token, q_owner = owner repo, q_name = name repo,
        q_since = analysisStartDate e, q_commitLimit = maxCommitsPerRepo e,
        q_prLimit = maxPRsPerRepo e, q_issueLimit = maxIssuesPerRepo e,
        q_lastPRNumber = None, q_lastIssueNumber = None \<rparr> = HttpOk body"
      by simp
    from full_sync_upstream_failure [OF this bad, where u = username and w = w] full
    show ?thesis by simp
  next
    case (Some m0)
    show ?thesis
    proof (cases "now e - lastSyncDate m0 < incrementalSyncIntervalHours e * 60 * 60 * 1000")
      case True
      with call Some have "w' = w"
        by (simp add: syncUserRepoActivity_def findByUsernameAndRepo_def Let_def)
      with issued show ?thesis by simp
    next
      case False
      with call Some have inc: "performIncrementalSync username repo token m0 e w = (res, w')"
        by (simp add: syncUserRepoActivity_def findByUsernameAndRepo_def Let_def)
      from inc_sync_requests [of username repo token m0 e w] inc issued resp
      have "github e \<lparr> q_token = token, q_owner = owner repo, q_name = name repo,
        q_since = lastSyncDate m0, q_commitLimit = 100, q_prLimit = 50, q_issueLimit = 50,
        q_lastPRNumber = Some (or_zero (lastPRNumber m0)),
        q_lastIssueNumber = Some (or_zero (lastIssueNumber m0)) \<rparr> = HttpOk body"
        by simp
      from inc_sync_upstream_failure [OF this bad, where u = username and w = w] inc
      show ?thesis by simp
    qed
  qed
  then show ?thesis by (auto simp: firstErrorMessage_def)
qed

theorem upstream_failure_no_write_witness:
  "syncUserRepoActivity ''octocat'' demo_repo ''tok'' (env_at 1000 error_response) empty_world =
     (Inl (Error ''GitHub GraphQL error: Could not resolve to a Repository''),
      empty_world\<lparr> requests := [\<lparr> q_token = ''tok'', q_owner = ''octo'', q_name = ''demo'',
          q_since = 0, q_commitLimit = 100, q_prLimit = 100, q_issueLimit = 100,
          q_lastPRNumber = None, q_lastIssueNumber = None \<rparr>] \<rparr>) \<and>
   syncMetadata (snd (syncUserRepoActivity ''octocat'' demo_repo ''tok'' (env_at 1000 error_response) empty_world)) =
     syncMetadata empty_world \<and>
   commitsSink (snd (syncUserRepoActivity ''octocat'' demo_repo ''tok'' (env_at 1000 error_response) empty_world)) =
     commitsSink empty_world"
proof -
  let ?q = "\<lparr> q_token = ''tok'', q_owner = ''octo'', q_name = ''demo'',
          q_since = 0, q_commitLimit = 100, q_prLimit = 100, q_issueLimit = 100,
          q_lastPRNumber = None, q_lastIssueNumber = None \<rparr>"
  let ?w' = "empty_world\<lparr> requests := [?q] \<rparr>"
  let ?body = "\<lparr> errors = Some [Some ''Could not resolve to a Repository''], data = Some None \<rparr>"
  have call: "syncUserRepoActivity ''octocat'' demo_repo ''tok'' (env_at 1000 error_response) empty_world =
     (Inl (Error ''GitHub GraphQL error: Could not resolve to a Repository''), ?w')"
    by (simp add: demo_defs error_response_def sync_defs Let_def)
  have issued: "requests ?w' = requests empty_world @ [?q]"
    by (simp add: empty_world_def)
  have resp: "github (env_at 1000 error_response) ?q = HttpOk ?body"
    by (simp add: env_at_def error_response_def)
  have bad: "errors ?body \<noteq> None \<or> data ?body = Some None"
    by simp
  from upstream_failure_no_write [OF call issued resp bad] call show ?thesis
    by simp
qed


text \<open>
  C8, as stated. In the scenario of a first full sync that finds 3 commits, 1 pull
  request, 0 issues, 2 pull-request comments and 0 issue comments by the user, the claim
  expects \<open>itemsFetched = 4\<close>. The call returns \<open>itemsFetched = 6\<close>.
\<close>

theorem itemsFetched_scenario_counterexample:
  "fst (syncUserRepoActivity ''octocat'' demo_repo ''tok'' demo_env empty_world) =
     Inr \<lparr> out_commits = Some 3, out_pullRequests = Some 1, out_issues = Some 0,
           out_prComments = Some 2, out_issueComments = Some 0,
           isIncremental = False, itemsFetched = 6 \<rparr> \<and>
   fst (syncUserRepoActivity ''octocat'' demo_repo ''tok'' demo_env empty_world) \<noteq>
     Inr \<lparr> out_commits = Some 3, out_pullRequests = Some 1, out_issues = Some 0,
           out_prComments = Some 2, out_issueComments = Some 0,
           isIncremental = False, itemsFetched = 4 \<rparr>"
  by (simp add: demo_defs sync_defs Let_def)


text \<open>
  C8, amended. A first sync (no watermark for the key) that succeeds returns as
  \<open>itemsFetched\<close> the sum of its five counters, comments included, with
  \<open>isIncremental = False\<close>; in the scenario that is 3 + 1 + 0 + 2 + 0 = 6.
\<close>

theorem first_sync_itemsFetched:
  assumes "syncMetadata w (username, repoFullNameOf repo) = None"
      and "syncUserRepoActivity username repo token e w = (Inr out, w')"
  shows "(\<exists>c p i pc ic.
            out_commits out = Some c \<and> out_pullRequests out = Some p \<and> out_issues out = Some i \<and>
            out_prComments out = Some pc \<and> out_issueComments out = Some ic \<and>
            itemsFetched out = c + p + i + pc + ic) \<and>
         isIncremental out = False"
  using assms
  by (auto simp: syncUserRepoActivity_def findByUsernameAndRepo_def performFullSync_def Let_def
        sumValues_def split: prod.splits sum.splits option.splits)

theorem first_sync_itemsFetched_witness:
  "syncMetadata empty_world (''octocat'', repoFullNameOf demo_repo) = None \<and>
   fst (syncUserRepoActivity ''octocat'' demo_repo ''tok'' demo_env empty_world) =
     Inr \<lparr> out_commits = Some 3, out_pullRequests = Some 1, out_issues = Some 0,
           out_prComments = Some 2, out_issueComments = Some 0,
           isIncremental = False, itemsFetched = 6 \<rparr> \<and>
   itemsFetched (projr (fst (syncUserRepoActivity ''octocat'' demo_repo ''tok'' demo_env empty_world))) =
     3 + 1 + 0 + 2 + 0"
proof -
  let ?res = "syncUserRepoActivity ''octocat'' demo_repo ''tok'' demo_env empty_world"
  have a: "syncMetadata empty_world (''octocat'', repoFullNameOf demo_repo) = None"
    by (simp add: empty_world_def)
  have b: "fst ?res =
     Inr \<lparr> out_commits = Some 3, out_pullRequests = Some 1, out_issues = Some 0,
           out_prComments = Some 2, out_issueComments = Some 0,
           isIncremental = False, itemsFetched = 6 \<rparr>"
    by (simp add: demo_defs sync_defs Let_def)
  then have c: "?res = (Inr (projr (fst ?res)), snd ?res)"
    by (simp add: prod_eq_iff)
  from first_sync_itemsFetched [OF a c] a b show ?thesis by simp
qed

text \<open>Items that are not newer than the watermarks pass none of the incremental filters.\<close>

lemma filter_not_newer_empty:
  assumes "list_all (\<lambda>x. ts x \<le> (t::int) \<or> \<not> P x) xs"
  shows "filter (\<lambda>x. A x \<and> t < ts x) (filter P xs) = []"
  using assms by (induction xs) auto

lemma count_not_newer_zero:
  assumes "list_all (\<lambda>p. (Q p \<and> list_all (\<lambda>k. ts k \<le> (t::int)) (g p)) \<or> \<not> P p) ps"
  shows "sum_list (map (\<lambda>p. int (length (filter (\<lambda>k. A k \<and> t < ts k) (g p)))) (filter P ps)) = 0"
  using assms
proof (induction ps)
  case Nil
  then show ?case by simp
next
  case (Cons p ps)
  show ?case
  proof (cases "P p")
    case True
    with Cons.prems have "filter (\<lambda>k. A k \<and> t < ts k) (g p) = []"
      by (auto simp: filter_empty_conv list_all_iff)
    with Cons True show ?thesis by simp
  next
    case False
    with Cons show ?thesis by simp
  qed
qed

lemma not_newer_incremental_counts:
  assumes "notNewerThanWatermarks m r"
  shows "fst (processAndCacheIncrementalData u rn
            \<lparr> fd_commits = filter (\<lambda>c. differsFromMarker (commit_oid c) (lastCommitSha m))
                             (or_empty (historyNodes r)),
              fd_pullRequests = filter (\<lambda>p. exceeds (pr_number p) (lastPRNumber m))
                             (or_empty (pullRequestNodes r)),
              fd_issues = filter (\<lambda>i. exceeds (issue_number i) (lastIssueNumber m))
                             (or_empty (issueNodes r)) \<rparr> (lastSyncDate m) e w) = zeroTotals"
proof -
  from assms have c: "list_all (\<lambda>c. commit_committedDate c \<le> lastSyncDate m \<or>
                     \<not> differsFromMarker (commit_oid c) (lastCommitSha m))
        (or_empty (historyNodes r))"
    and p: "list_all (\<lambda>p. (pr_createdAt p \<le> lastSyncDate m \<and>
                      list_all (\<lambda>k. comment_createdAt k \<le> lastSyncDate m) (or_empty (pr_comments p))) \<or>
                     \<not> exceeds (pr_number p) (lastPRNumber m))
        (or_empty (pullRequestNodes r))"
    and i: "list_all (\<lambda>i. (issue_createdAt i \<le> lastSyncDate m \<and>
                      list_all (\<lambda>k. comment_createdAt k \<le> lastSyncDate m) (or_empty (issue_comments i))) \<or>
                     \<not> exceeds (issue_number i) (lastIssueNumber m))
        (or_empty (issueNodes r))"
    by (simp_all add: notNewerThanWatermarks_def)
  from p have p1: "list_all (\<lambda>p. pr_createdAt p \<le> lastSyncDate m \<or>
                     \<not> exceeds (pr_number p) (lastPRNumber m)) (or_empty (pullRequestNodes r))"
    by (auto simp: list_all_iff)
  from i have i1: "list_all (\<lambda>i. issue_createdAt i \<le> lastSyncDate m \<or>
                     \<not> exceeds (issue_number i) (lastIssueNumber m)) (or_empty (issueNodes r))"
    by (auto simp: list_all_iff)
  show ?thesis
    by (simp add: inc_totals zeroTotals_def filter_not_newer_empty [OF c]
          filter_not_newer_empty [OF p1] filter_not_newer_empty [OF i1]
          count_not_newer_zero [OF p] count_not_newer_zero [OF i]
          del: filter_filter)
qed

text \<open>
  What does hold: a successful call on a stored watermark \<open>m1\<close> leaves the five stored
  totals as they are when the repository returned to the request it posts has nothing
  newer than the watermarks. A snapshot that the previous sync already counted satisfies
  this for its pull requests and issues (their numbers are at or below the stored
  maximum) and for its head commit (the marker), whatever their instants.
\<close>

lemma stored_totals_kept_without_newer_items:
  assumes stored: "syncMetadata w1 (username, repoFullNameOf repo) = Some m1"
      and second: "syncUserRepoActivity username repo token e2 w1 = (Inr out2, w2)"
      and quiet: "\<And>q body r. requests w2 = requests w1 @ [q] \<Longrightarrow> github e2 q = HttpOk body \<Longrightarrow>
                    data body = Some (Some r) \<Longrightarrow> notNewerThanWatermarks m1 r"
  shows "storedTotals username repo w2 = storedTotals username repo w1"
proof (cases "now e2 - lastSyncDate m1 < incrementalSyncIntervalHours e2 * 60 * 60 * 1000")
  case True
  with second stored have "w2 = w1"
    by (simp add: syncUserRepoActivity_def findByUsernameAndRepo_def Let_def)
  then show ?thesis by simp
next
  case False
  with second stored
  have inc: "performIncrementalSync username repo token m1 e2 w1 = (Inr out2, w2)"
    by (simp add: syncUserRepoActivity_def findByUsernameAndRepo_def Let_def)
  from performIncrementalSync_Inr [OF inc] obtain q body r m2 where
      q: "requests w2 = requests w1 @ [q]" "github e2 q = HttpOk body" "data body = Some (Some r)"
    and m2: "syncMetadata w2 (username, repoFullNameOf repo) = Some m2"
      "Some (commits (totalItems m2)) = out_commits out2"
      "Some (pullRequests (totalItems m2)) = out_pullRequests out2"
      "Some (issues (totalItems m2)) = out_issues out2"
      "Some (prComments (totalItems m2)) = out_prComments out2"
      "Some (issueComments (totalItems m2)) = out_issueComments out2"
    and out2: "out_commits out2 = Some (commits (totalItems m1) + commits (fst (processAndCacheIncrementalData username (repoFullNameOf repo)
          \<lparr> fd_commits = filter (\<lambda>c. differsFromMarker (commit_oid c) (lastCommitSha m1)) (or_empty (historyNodes r)),
            fd_pullRequests = filter (\<lambda>p. exceeds (pr_number p) (lastPRNumber m1)) (or_empty (pullRequestNodes r)),
            fd_issues = filter (\<lambda>i. exceeds (issue_number i) (lastIssueNumber m1)) (or_empty (issueNodes r)) \<rparr>
          (lastSyncDate m1) e2 w1)))"
      "out_pullRequests out2 = Some (pullRequests (totalItems m1) + pullRequests (fst (processAndCacheIncrementalData username (repoFullNameOf repo)
          \<lparr> fd_commits = filter (\<lambda>c. differsFromMarker (commit_oid c) (lastCommitSha m1)) (or_empty (historyNodes r)),
            fd_pullRequests = filter (\<lambda>p. exceeds (pr_number p) (lastPRNumber m1)) (or_empty (pullRequestNodes r)),
            fd_issues = filter (\<lambda>i. exceeds (issue_number i) (lastIssueNumber m1)) (or_empty (issueNodes r)) \<rparr>
          (lastSyncDate m1) e2 w1)))"
      "out_issues out2 = Some (issues (totalItems m1) + issues (fst (processAndCacheIncrementalData username (repoFullNameOf repo)
          \<lparr> fd_commits = filter (\<lambda>c. differsFromMarker (commit_oid c) (lastCommitSha m1)) (or_empty (historyNodes r)),
            fd_pullRequests = filter (\<lambda>p. exceeds (pr_number p) (lastPRNumber m1)) (or_empty (pullRequestNodes r)),
            fd_issues = filter (\<lambda>i. exceeds (issue_number i) (lastIssueNumber m1)) (or_empty (issueNodes r)) \<rparr>
          (lastSyncDate m1) e2 w1)))"
      "out_prComments out2 = Some (prComments (totalItems m1) + prComments (fst (processAndCacheIncrementalData username (repoFullNameOf repo)
          \<lparr> fd_commits = filter (\<lambda>c. differsFromMarker (commit_oid c) (lastCommitSha m1)) (or_empty (historyNodes r)),
            fd_pullRequests = filter (\<lambda>p. exceeds (pr_number p) (lastPRNumber m1)) (or_empty (pullRequestNodes r)),
            fd_issues = filter (\<lambda>i. exceeds (issue_number i) (lastIssueNumber m1)) (or_empty (issueNodes r)) \<rparr>
          (lastSyncDate m1) e2 w1)))"
      "out_issueComments out2 = Some (issueComments (totalItems m1) + issueComments (fst (processAndCacheIncrementalData username (repoFullNameOf repo)
          \<lparr> fd_commits = filter (\<lambda>c. differsFromMarker (commit_oid c) (lastCommitSha m1)) (or_empty (historyNodes r)),
            fd_pullRequests = filter (\<lambda>p. exceeds (pr_number p) (lastPRNumber m1)) (or_empty (pullRequestNodes r)),
            fd_issues = filter (\<lambda>i. exceeds (issue_number i) (lastIssueNumber m1)) (or_empty (issueNodes r)) \<rparr>
          (lastSyncDate m1) e2 w1)))"
    unfolding Let_def by blast
  from quiet [OF q] have "notNewerThanWatermarks m1 r" .
  note z = not_newer_incremental_counts [OF this]
  from out2 m2 have "commits (totalItems m2) = commits (totalItems m1)"
      "pullRequests (totalItems m2) = pullRequests (totalItems m1)"
      "issues (totalItems m2) = issues (totalItems m1)"
      "prComments (totalItems m2) = prComments (totalItems m1)"
      "issueComments (totalItems m2) = issueComments (totalItems m1)"
    by (simp_all add: z zeroTotals_def)
  then have "totalItems m2 = totalItems m1"
    by (intro totals.equality) simp_all
  with m2 stored show ?thesis
    by (simp add: storedTotals_def)
qed




text \<open>
  C9. Comments are counted over the whole raw node set. In both filters the pull-request
  comment total is the number of comments by the user that meet the time bound among all
  comments of all pull requests given, whoever authored the pull request; the same holds
  for issues.
\<close>

theorem comments_counted_over_all_nodes:
  "prComments (fst (processAndCacheFullData u rn r h e w)) =
     int (length (filter (\<lambda>k. comment_login k = Some u \<and> h \<le> comment_createdAt k)
                    (concat (map (\<lambda>p. or_empty (pr_comments p)) (or_empty (pullRequestNodes r)))))) \<and>
   issueComments (fst (processAndCacheFullData u rn r h e w)) =
     int (length (filter (\<lambda>k. comment_login k = Some u \<and> h \<le> comment_createdAt k)
                    (concat (map (\<lambda>i. or_empty (issue_comments i)) (or_empty (issueNodes r)))))) \<and>
   prComments (fst (processAndCacheIncrementalData u rn d t e w)) =
     int (length (filter (\<lambda>k. comment_login k = Some u \<and> t < comment_createdAt k)
                    (concat (map (\<lambda>p. or_empty (pr_comments p)) (fd_pullRequests d))))) \<and>
   issueComments (fst (processAndCacheIncrementalData u rn d t e w)) =
     int (length (filter (\<lambda>k. comment_login k = Some u \<and> t < comment_createdAt k)
                    (concat (map (\<lambda>i. or_empty (issue_comments i)) (fd_issues d)))))"
  by (simp add: full_totals inc_totals sum_count_concat)

text \<open>The counts of a successful incremental sync, from the response to its request.\<close>

lemma incremental_sync_counts:
  assumes call: "performIncrementalSync u repo tok m0 e w = (Inr out, w')"
      and issued: "requests w' = requests w @ [q]"
      and resp: "github e q = HttpOk body"
      and dat: "data body = Some (Some r)"
  shows "out_commits out = Some (commits (totalItems m0) +
           int (length (filter (\<lambda>c. commit_login c = Some u \<and> lastSyncDate m0 < commit_committedDate c)
                  (filter (\<lambda>c. differsFromMarker (commit_oid c) (lastCommitSha m0)) (or_empty (historyNodes r))))))"
    and "out_pullRequests out = Some (pullRequests (totalItems m0) +
           int (length (filter (\<lambda>p. pr_login p = Some u \<and> lastSyncDate m0 < pr_createdAt p)
                  (filter (\<lambda>p. exceeds (pr_number p) (lastPRNumber m0)) (or_empty (pullRequestNodes r))))))"
    and "out_issues out = Some (issues (totalItems m0) +
           int (length (filter (\<lambda>i. issue_login i = Some u \<and> lastSyncDate m0 < issue_createdAt i)
                  (filter (\<lambda>i. exceeds (issue_number i) (lastIssueNumber m0)) (or_empty (issueNodes r))))))"
    and "out_prComments out = Some (prComments (totalItems m0) +
           sum_list (map (\<lambda>p. int (length (filter (\<lambda>k. comment_login k = Some u \<and> lastSyncDate m0 < comment_createdAt k)
                                      (or_empty (pr_comments p)))))
                  (filter (\<lambda>p. exceeds (pr_number p) (lastPRNumber m0)) (or_empty (pullRequestNodes r)))))"
    and "out_issueComments out = Some (issueComments (totalItems m0) +
           sum_list (map (\<lambda>i. int (length (filter (\<lambda>k. comment_login k = Some u \<and> lastSyncDate m0 < comment_createdAt k)
                                      (or_empty (issue_comments i)))))
                  (filter (\<lambda>i. exceeds (issue_number i) (lastIssueNumber m0)) (or_empty (issueNodes r)))))"
proof -
  from performIncrementalSync_Inr [OF call] obtain q' body' r' where
      a: "requests w' = requests w @ [q']" "github e q' = HttpOk body'" "data body' = Some (Some r')"
    and b: "let nd = \<lparr> fd_commits = filter (\<lambda>c. differsFromMarker (commit_oid c) (lastCommitSha m0))
                                      (or_empty (historyNodes r')),
                        fd_pullRequests = filter (\<lambda>p. exceeds (pr_number p) (lastPRNumber m0))
                                      (or_empty (pullRequestNodes r')),
                        fd_issues = filter (\<lambda>i. exceeds (issue_number i) (lastIssueNumber m0))
                                      (or_empty (issueNodes r')) \<rparr>;
                 nr = fst (processAndCacheIncrementalData u (repoFullNameOf repo) nd (lastSyncDate m0) e w)
            in out_commits out = Some (commits (totalItems m0) + commits nr) \<and>
               out_pullRequests out = Some (pullRequests (totalItems m0) + pullRequests nr) \<and>
               out_issues out = Some (issues (totalItems m0) + issues nr) \<and>
               out_prComments out = Some (prComments (totalItems m0) + prComments nr) \<and>
               out_issueComments out = Some (issueComments (totalItems m0) + issueComments nr)"
    unfolding Let_def by blast
  from a issued resp dat have "r' = r" by simp
  with b show
    "out_commits out = Some (commits (totalItems m0) +
           int (length (filter (\<lambda>c. commit_login c = Some u \<and> lastSyncDate m0 < commit_committedDate c)
                  (filter (\<lambda>c. differsFromMarker (commit_oid c) (lastCommitSha m0)) (or_empty (historyNodes r))))))"
    "out_pullRequests out = Some (pullRequests (totalItems m0) +
           int (length (filter (\<lambda>p. pr_login p = Some u \<and> lastSyncDate m0 < pr_createdAt p)
                  (filter (\<lambda>p. exceeds (pr_number p) (lastPRNumber m0)) (or_empty (pullRequestNodes r))))))"
    "out_issues out = Some (issues (totalItems m0) +
           int (length (filter (\<lambda>i. issue_login i = Some u \<and> lastSyncDate m0 < issue_createdAt i)
                  (filter (\<lambda>i. exceeds (issue_number i) (lastIssueNumber m0)) (or_empty (issueNodes r))))))"
    "out_prComments out = Some (prComments (totalItems m0) +
           sum_list (map (\<lambda>p. int (length (filter (\<lambda>k. comment_login k = Some u \<and> lastSyncDate m0 < comment_createdAt k)
                                      (or_empty (pr_comments p)))))
                  (filter (\<lambda>p. exceeds (pr_number p) (lastPRNumber m0)) (or_empty (pullRequestNodes r)))))"
    "out_issueComments out = Some (issueComments (totalItems m0) +
           sum_list (map (\<lambda>i. int (length (filter (\<lambda>k. comment_login k = Some u \<and> lastSyncDate m0 < comment_createdAt k)
                                      (or_empty (issue_comments i)))))
                  (filter (\<lambda>i. exceeds (issue_number i) (lastIssueNumber m0)) (or_empty (issueNodes r)))))"
    by (simp_all add: Let_def inc_totals del: filter_filter)
qed

lemma filter_filter_conj:
  "filter P (filter Q xs) = filter (\<lambda>x. P x \<and> Q x) xs"
  by (induction xs) auto

lemma busy_sync_result:
  "fst (performIncrementalSync ''octocat'' demo_repo ''tok'' demo_metadata
          (env_at 20000000 (ok_response busy_repository)) cached_world) =
     Inr \<lparr> out_commits = Some 4, out_pullRequests = Some 2, out_issues = Some 1,
           out_prComments = Some 3, out_issueComments = Some 1,
           isIncremental = True, itemsFetched = 5 \<rparr>"
  by (simp add: demo_defs sync_defs Let_def)

text \<open>
  C5. New items in an incremental sync. The commits added to the total are exactly the
  commits of the response by the user whose instant is strictly newer than
  \<open>lastSyncDate\<close> and whose identifier differs from the stored marker (an absent or
  empty marker excludes nothing); the pull requests and issues added are exactly those by
  the user, created strictly after \<open>lastSyncDate\<close>, whose number strictly exceeds the
  stored watermark (0 when none is stored).
\<close>

theorem incremental_new_items:
  assumes "performIncrementalSync username repo token lastSync e w = (Inr out, w')"
      and "requests w' = requests w @ [q]"
      and "github e q = HttpOk body"
      and "data body = Some (Some r)"
  shows "out_commits out = Some (commits (totalItems lastSync) +
           int (length (filter (\<lambda>c. (commit_login c = Some username \<and>
                                      lastSyncDate lastSync < commit_committedDate c) \<and>
                                     differsFromMarker (commit_oid c) (lastCommitSha lastSync))
                          (or_empty (historyNodes r))))) \<and>
         out_pullRequests out = Some (pullRequests (totalItems lastSync) +
           int (length (filter (\<lambda>p. (pr_login p = Some username \<and>
                                      lastSyncDate lastSync < pr_createdAt p) \<and>
                                     exceeds (pr_number p) (lastPRNumber lastSync))
                          (or_empty (pullRequestNodes r))))) \<and>
         out_issues out = Some (issues (totalItems lastSync) +
           int (length (filter (\<lambda>i. (issue_login i = Some username \<and>
                                      lastSyncDate lastSync < issue_createdAt i) \<and>
                                     exceeds (issue_number i) (lastIssueNumber lastSync))
                          (or_empty (issueNodes r)))))"
  using incremental_sync_counts(1-3) [OF assms]
  by (simp only: filter_filter_conj simp_thms)

theorem incremental_new_items_witness:
  "out_commits (projr (fst (performIncrementalSync ''octocat'' demo_repo ''tok'' demo_metadata
          (env_at 20000000 (ok_response busy_repository)) cached_world))) = Some (3 + 1) \<and>
   out_pullRequests (projr (fst (performIncrementalSync ''octocat'' demo_repo ''tok'' demo_metadata
          (env_at 20000000 (ok_response busy_repository)) cached_world))) = Some (1 + 1) \<and>
   out_issues (projr (fst (performIncrementalSync ''octocat'' demo_repo ''tok'' demo_metadata
          (env_at 20000000 (ok_response busy_repository)) cached_world))) = Some (0 + 1)"
proof -
  let ?e = "env_at 20000000 (ok_response busy_repository)"
  let ?X = "performIncrementalSync ''octocat'' demo_repo ''tok'' demo_metadata ?e cached_world"
  let ?q = "\<lparr> q_token = ''tok'', q_owner = owner demo_repo, q_name = name demo_repo,
        q_since = lastSyncDate demo_metadata, q_commitLimit = 100, q_prLimit = 50, q_issueLimit = 50,
        q_lastPRNumber = Some (or_zero (lastPRNumber demo_metadata)),
        q_lastIssueNumber = Some (or_zero (lastIssueNumber demo_metadata)) \<rparr>"
  let ?body = "\<lparr> errors = None, data = Some (Some busy_repository) \<rparr>"
  have call: "?X = (Inr (projr (fst ?X)), snd ?X)"
    using busy_sync_result by (simp add: prod_eq_iff)
  have issued: "requests (snd ?X) = requests cached_world @ [?q]"
    by (rule inc_sync_requests)
  have resp: "github ?e ?q = HttpOk ?body"
    by (simp add: env_at_def ok_response_def)
  have dat: "data ?body = Some (Some busy_repository)"
    by simp
  from incremental_new_items [OF call issued resp dat] busy_sync_result show ?thesis
    by simp
qed

text \<open>
  C10. Comments in an incremental sync. The comments added to \<open>prComments\<close> and
  \<open>issueComments\<close> are the recent comments by the user on the pull requests and issues
  whose number strictly exceeds the stored watermark; a comment on a pull request or
  issue at or below the watermark adds nothing, however recent it is.
\<close>

theorem incremental_comments_only_on_new_items:
  assumes "performIncrementalSync username repo token lastSync e w = (Inr out, w')"
      and "requests w' = requests w @ [q]"
      and "github e q = HttpOk body"
      and "data body = Some (Some r)"
  shows "out_prComments out = Some (prComments (totalItems lastSync) +
           int (length (filter (\<lambda>k. comment_login k = Some username \<and>
                                     lastSyncDate lastSync < comment_createdAt k)
                  (concat (map (\<lambda>p. or_empty (pr_comments p))
                     (filter (\<lambda>p. exceeds (pr_number p) (lastPRNumber lastSync))
                        (or_empty (pullRequestNodes r)))))))) \<and>
         out_issueComments out = Some (issueComments (totalItems lastSync) +
           int (length (filter (\<lambda>k. comment_login k = Some username \<and>
                                     lastSyncDate lastSync < comment_createdAt k)
                  (concat (map (\<lambda>i. or_empty (issue_comments i))
                     (filter (\<lambda>i. exceeds (issue_number i) (lastIssueNumber lastSync))
                        (or_empty (issueNodes r))))))))"
  using incremental_sync_counts(4-5) [OF assms]
  by (simp only: sum_count_concat simp_thms)

theorem incremental_comments_only_on_new_items_witness:
  "out_prComments (projr (fst (performIncrementalSync ''octocat'' demo_repo ''tok'' demo_metadata
          (env_at 20000000 (ok_response busy_repository)) cached_world))) = Some (2 + 1) \<and>
   out_issueComments (projr (fst (performIncrementalSync ''octocat'' demo_repo ''tok'' demo_metadata
          (env_at 20000000 (ok_response busy_repository)) cached_world))) = Some (0 + 1)"
proof -
  let ?e = "env_at 20000000 (ok_response busy_repository)"
  let ?X = "performIncrementalSync ''octocat'' demo_repo ''tok'' demo_metadata ?e cached_world"
  let ?q = "\<lparr> q_token = ''tok'', q_owner = owner demo_repo, q_name = name demo_repo,
        q_since = lastSyncDate demo_metadata, q_commitLimit = 100, q_prLimit = 50, q_issueLimit = 50,
        q_lastPRNumber = Some (or_zero (lastPRNumber demo_metadata)),
        q_lastIssueNumber = Some (or_zero (lastIssueNumber demo_metadata)) \<rparr>"
  let ?body = "\<lparr> errors = None, data = Some (Some busy_repository) \<rparr>"
  have call: "?X = (Inr (projr (fst ?X)), snd ?X)"
    using busy_sync_result by (simp add: prod_eq_iff)
  have issued: "requests (snd ?X) = requests cached_world @ [?q]"
    by (rule inc_sync_requests)
  have resp: "github ?e ?q = HttpOk ?body"
    by (simp add: env_at_def ok_response_def)
  have dat: "data ?body = Some (Some busy_repository)"
    by simp
  from incremental_comments_only_on_new_items [OF call issued resp dat] busy_sync_result show ?thesis
    by simp
qed

end
